theory Spec2Isabelle
  imports
    Complex_Main
    "HOL-Library.Multiset"
    "HOL-Library.Product_Lexorder"
    "HOL-Library.List_Lexorder"
    "HOL-Library.Char_ord"
    "HOL-Library.Monad_Syntax"
begin

section \<open>Personal Expense Tracker: the sheet-backed ledger and its aggregations\<close>

text \<open>
  The program (\<^verbatim>\<open>app.py\<close>) keeps its data in two worksheets of a spreadsheet and
  recomputes every view from a fresh read. This theory embeds the functions of the
  program that read and write the worksheets and the expressions of the script that
  filter and aggregate the loaded frame.

  Amounts are Python floats in the program; they are embedded as exact rationals, so
  every statement about sums and quotients below is a statement of exact arithmetic.

  The program leaves much to its libraries. Where this theory does not describe what a
  library call returns, the embedded function has the value \<open>None\<close> or
  \<open>Undescribed\<close>, and nothing is stated about the program there.
\<close>

subsection \<open>Calendar dates and their text form\<close>

text \<open>
  A \<^verbatim>\<open>datetime.date\<close>: a year between 1 and 9999, a month and a day that exists in
  that month.
\<close>

record date =
  year :: nat
  month :: nat
  day :: nat

definition is_leap :: "nat \<Rightarrow> bool" where
  "is_leap y \<longleftrightarrow> y mod 4 = 0 \<and> (y mod 100 \<noteq> 0 \<or> y mod 400 = 0)"

definition days_in_month :: "nat \<Rightarrow> nat \<Rightarrow> nat" where
  "days_in_month y m =
     (if m = 2 then (if is_leap y then 29 else 28)
      else if m = 4 \<or> m = 6 \<or> m = 9 \<or> m = 11 then 30 else 31)"

definition valid_date :: "date \<Rightarrow> bool" where
  "valid_date d \<longleftrightarrow>
     1 \<le> year d \<and> year d \<le> 9999 \<and> 1 \<le> month d \<and> month d \<le> 12 \<and>
     1 \<le> day d \<and> day d \<le> days_in_month (year d) (month d)"

text \<open>Dates compare by year, then month, then day.\<close>

definition date_key :: "date \<Rightarrow> nat \<times> nat \<times> nat" where
  "date_key d = (year d, month d, day d)"

definition date_le :: "date \<Rightarrow> date \<Rightarrow> bool" where
  "date_le a b \<longleftrightarrow> date_key a \<le> date_key b"

text \<open>
  \<^verbatim>\<open>date.strftime('%Y-%m-%d')\<close> with the C library of Linux: the year in decimal
  without padding, so with fewer than four digits before the year 1000, then the month
  and the day in two digits each, separated by hyphens.
\<close>

definition digit :: "nat \<Rightarrow> char" where
  "digit n = char_of (48 + n mod 10)"

function decimal :: "nat \<Rightarrow> string" where
  "decimal n = (if n < 10 then [digit n] else decimal (n div 10) @ [digit n])"
  by pat_completeness auto
termination
  by (relation "measure id") auto

declare decimal.simps [simp del]

definition strftime :: "date \<Rightarrow> string" where
  "strftime d =
     decimal (year d) @
     [CHR ''-'', digit (month d div 10), digit (month d),
      CHR ''-'', digit (day d div 10), digit (day d)]"

text \<open>
  \<^verbatim>\<open>pd.to_datetime\<close> on the text of a Date cell, read back as a calendar date (the
  script compares \<^verbatim>\<open>df['date'].dt.date\<close>). Text of the form \<^verbatim>\<open>YYYY-MM-DD\<close> that
  names an existing day of the years 1678 to 2261, which every timestamp resolution of
  the library covers, is read as that day. What the library makes of any other text is
  not described here (\<open>None\<close>).
\<close>

definition digit_val :: "char \<Rightarrow> nat option" where
  "digit_val c =
     (let n = (of_char c :: nat) in if 48 \<le> n \<and> n \<le> 57 then Some (n - 48) else None)"

definition to_datetime :: "string \<Rightarrow> date option" where
  "to_datetime s =
     (if length s = 10 \<and> s ! 4 = CHR ''-'' \<and> s ! 7 = CHR ''-'' then
        do {
          y1 \<leftarrow> digit_val (s ! 0); y2 \<leftarrow> digit_val (s ! 1);
          y3 \<leftarrow> digit_val (s ! 2); y4 \<leftarrow> digit_val (s ! 3);
          m1 \<leftarrow> digit_val (s ! 5); m2 \<leftarrow> digit_val (s ! 6);
          d1 \<leftarrow> digit_val (s ! 8); d2 \<leftarrow> digit_val (s ! 9);
          let d = \<lparr>year = 1000 * y1 + 100 * y2 + 10 * y3 + y4,
                   month = 10 * m1 + m2, day = 10 * d1 + d2\<rparr>
          in if valid_date d \<and> 1678 \<le> year d \<and> year d \<le> 2261 then Some d else None
        }
      else None)"

subsection \<open>Worksheets and what a read returns\<close>

text \<open>
  A worksheet of the spreadsheet is embedded as the list of its rows, row 1 first, down
  to the last row that holds anything, each row the list of its cells from column A
  on. A cell was written as text or as a number. A call of the spreadsheet client
  returns a value, raises, or is not described here.
\<close>

datatype cell = Txt string | Num rat

type_synonym worksheet = "cell list list"

datatype 'a outcome = Returns 'a | Raises | Undescribed

text \<open>
  The client's \<^verbatim>\<open>numericise\<close>, which \<^verbatim>\<open>get_all_records\<close> applies to every cell below
  the header: text with an underscore stays text; text that \<^verbatim>\<open>int()\<close> accepts is read
  as that integer; text that \<^verbatim>\<open>float()\<close> accepts is read as that float; any other
  text, the empty one too, stays text.

  The embedding describes two kinds of text. An integer literal, an optional sign
  before one or more digits, is read as its number. Plain text stays text: the empty
  text, text with an underscore, text with a letter that occurs in no number (any
  letter but those of the exponent mark and of \<^verbatim>\<open>inf\<close>, \<^verbatim>\<open>infinity\<close>, \<^verbatim>\<open>nan\<close>), and
  text with a sign right after a digit. The reading of any other text is not described
  (\<open>None\<close>).
\<close>

definition is_digit :: "char \<Rightarrow> bool" where
  "is_digit c \<longleftrightarrow> digit_val c \<noteq> None"

definition digits_value :: "string \<Rightarrow> nat" where
  "digits_value s = fold (\<lambda>c n. 10 * n + (case digit_val c of Some k \<Rightarrow> k | None \<Rightarrow> 0)) s 0"

definition int_literal :: "string \<Rightarrow> int option" where
  "int_literal s =
     (case s of
        [] \<Rightarrow> None
      | c # r \<Rightarrow>
          if c = CHR ''-'' then
            (if r \<noteq> [] \<and> list_all is_digit r then Some (- int (digits_value r)) else None)
          else if c = CHR ''+'' then
            (if r \<noteq> [] \<and> list_all is_digit r then Some (int (digits_value r)) else None)
          else if list_all is_digit s then Some (int (digits_value s))
          else None)"

definition never_in_number :: "char \<Rightarrow> bool" where
  "never_in_number c \<longleftrightarrow> c \<in> set ''bcdghjklmopqrsuvwxzBCDGHJKLMOPQRSUVWXZ''"

fun sign_after_digit :: "string \<Rightarrow> bool" where
  "sign_after_digit (a # b # r) =
     ((is_digit a \<and> (b = CHR ''-'' \<or> b = CHR ''+'')) \<or> sign_after_digit (b # r))"
| "sign_after_digit _ = False"

definition plain_text :: "string \<Rightarrow> bool" where
  "plain_text s \<longleftrightarrow>
     s = [] \<or> CHR ''_'' \<in> set s \<or> list_ex never_in_number s \<or> sign_after_digit s"

definition numericise :: "string \<Rightarrow> cell option" where
  "numericise s =
     (if plain_text s then Some (Txt s)
      else case int_literal s of Some i \<Rightarrow> Some (Num (of_int i)) | None \<Rightarrow> None)"

text \<open>A number is read back as the number that was written.\<close>

fun read_cell :: "cell \<Rightarrow> cell option" where
  "read_cell (Txt s) = numericise s"
| "read_cell (Num r) = Some (Num r)"

text \<open>
  \<^verbatim>\<open>worksheet.append_row(row)\<close>: the row goes below the last row that holds anything.
\<close>

definition blank_row :: "cell list \<Rightarrow> bool" where
  "blank_row r \<longleftrightarrow> list_all (\<lambda>c. c = Txt []) r"

definition append_row :: "worksheet \<Rightarrow> cell list \<Rightarrow> worksheet outcome" where
  "append_row ws r =
     (if ws \<noteq> [] \<and> blank_row (last ws) then Undescribed else Returns (ws @ [r]))"

text \<open>
  \<^verbatim>\<open>worksheet.update(f'A{n}:D{n}', [vals])\<close>: the first cells of row \<open>n\<close> are
  overwritten by \<open>vals\<close>, the cells to their right stay. There is no row 0, and a row
  below the last one is not described.
\<close>

definition update :: "worksheet \<Rightarrow> nat \<Rightarrow> cell list \<Rightarrow> worksheet outcome" where
  "update ws n vals =
     (if n = 0 then Raises
      else if n \<le> length ws
      then Returns (ws[n - 1 := vals @ drop (length vals) (ws ! (n - 1))])
      else Undescribed)"

text \<open>
  A row number is a Python \<^verbatim>\<open>int\<close> or a \<^verbatim>\<open>numpy.int64\<close>. In a range name both print
  as their digits. \<^verbatim>\<open>worksheet.delete_rows(n)\<close> puts the number itself into the body
  of its request, which is sent as JSON: a \<^verbatim>\<open>numpy.int64\<close> cannot be, and the call
  raises. With an \<^verbatim>\<open>int\<close>, row \<open>n\<close> is removed and the rows below it move up; there is
  no row 0, and a row below the last one is not described.
\<close>

datatype row_number = PyInt nat | NumpyInt64 nat

fun number_of :: "row_number \<Rightarrow> nat" where
  "number_of (PyInt n) = n"
| "number_of (NumpyInt64 n) = n"

fun delete_rows :: "worksheet \<Rightarrow> row_number \<Rightarrow> worksheet outcome" where
  "delete_rows ws (NumpyInt64 n) = Raises"
| "delete_rows ws (PyInt n) =
     (if n = 0 then Raises
      else if n \<le> length ws then Returns (take (n - 1) ws @ drop n ws)
      else Undescribed)"

text \<open>
  \<^verbatim>\<open>worksheet.get_all_records()\<close>: the rows are filled with empty text to the width of
  the widest; the first row gives the keys, which must be text and must differ from
  each other, else the call raises; every row below it gives one dictionary from the
  keys to its cells as \<^verbatim>\<open>numericise\<close> reads them.
\<close>

definition pad :: "nat \<Rightarrow> cell list \<Rightarrow> cell list" where
  "pad w r = r @ replicate (w - length r) (Txt [])"

definition width :: "worksheet \<Rightarrow> nat" where
  "width ws = fold max (map length ws) 0"

fun is_text :: "cell \<Rightarrow> bool" where
  "is_text (Txt s) = True"
| "is_text (Num r) = False"

definition get_all_records :: "worksheet \<Rightarrow> (cell \<rightharpoonup> cell) list outcome" where
  "get_all_records ws =
     (case map (pad (width ws)) ws of
        [] \<Rightarrow> Returns []
      | h # rows \<Rightarrow>
          if \<not> list_all is_text h then Undescribed
          else if \<not> distinct h then Raises
          else (case those (map (\<lambda>r. those (map read_cell r)) rows) of
                  None \<Rightarrow> Undescribed
                | Some vals \<Rightarrow> Returns (map (\<lambda>v. map_of (zip h v)) vals)))"

subsection \<open>The expense ledger\<close>

definition expenses_header :: "cell list" where
  "expenses_header = [Txt ''Date'', Txt ''Amount'', Txt ''Category'', Txt ''Description'']"

text \<open>
  A row of the loaded frame: the four columns of the sheet and \<^verbatim>\<open>RowNum\<close>. The
  frame is embedded with exactly these columns.
\<close>

record expense =
  date :: date
  amount :: rat
  category :: cell
  description :: cell
  row_num :: nat

text \<open>
  \<^verbatim>\<open>pd.to_datetime\<close> and \<^verbatim>\<open>pd.to_numeric\<close> on a cell as read. A Date cell that is
  text is converted as above; an Amount cell that is a number is that number. Other
  cells are not described (\<open>None\<close>).
\<close>

fun cell_to_datetime :: "cell \<Rightarrow> date option" where
  "cell_to_datetime (Txt s) = to_datetime s"
| "cell_to_datetime (Num r) = None"

fun to_numeric :: "cell \<Rightarrow> rat option" where
  "to_numeric (Num r) = Some r"
| "to_numeric (Txt s) = None"

text \<open>
  A column of the frame built from the records: \<open>None\<close> when the key is missing,
  where \<^verbatim>\<open>df[key]\<close> raises \<^verbatim>\<open>KeyError\<close>.
\<close>

definition column :: "(cell \<rightharpoonup> cell) list \<Rightarrow> string \<Rightarrow> cell list option" where
  "column data key = those (map (\<lambda>row. row (Txt key)) data)"

fun with_row_num :: "date \<times> rat \<times> cell \<times> cell \<Rightarrow> nat \<Rightarrow> expense" where
  "with_row_num (d, a, c, x) n =
     \<lparr>date = d, amount = a, category = c, description = x, row_num = n\<rparr>"

text \<open>\<^verbatim>\<open>df['RowNum'] = range(k, len(df) + k)\<close>.\<close>

definition assign_row_num :: "nat \<Rightarrow> (date \<times> rat \<times> cell \<times> cell) list \<Rightarrow> expense list" where
  "assign_row_num k df = map2 with_row_num df [k ..< length df + k]"

text \<open>
  \<^verbatim>\<open>load_expenses\<close>, column by column as the function does it: the records, the Date
  column converted, the Amount column converted, \<^verbatim>\<open>RowNum\<close> counting from 2 since
  row 1 is the header. No records, or an exception anywhere, gives the empty frame.
  The result is \<open>None\<close> where a read or a conversion is not described, and where
  the Category or the Description column is missing.
\<close>

definition load_expenses :: "worksheet \<Rightarrow> expense list option" where
  "load_expenses ws =
     (case get_all_records ws of
        Undescribed \<Rightarrow> None
      | Raises \<Rightarrow> Some []
      | Returns data \<Rightarrow>
          if data \<noteq> [] then
            (case column data ''Date'' of
               None \<Rightarrow> Some []
             | Some date_cells \<Rightarrow>
                 (case those (map cell_to_datetime date_cells) of
                    None \<Rightarrow> None
                  | Some dates \<Rightarrow>
                      (case column data ''Amount'' of
                         None \<Rightarrow> Some []
                       | Some amount_cells \<Rightarrow>
                           (case those (map to_numeric amount_cells) of
                              None \<Rightarrow> None
                            | Some amounts \<Rightarrow>
                                (case (column data ''Category'', column data ''Description'') of
                                   (Some cs, Some xs) \<Rightarrow>
                                     Some (assign_row_num 2 (zip dates (zip amounts (zip cs xs))))
                                 | _ \<Rightarrow> None)))))
          else Some [])"

text \<open>
  The amount handed to \<^verbatim>\<open>add_expense\<close> and \<^verbatim>\<open>update_expense\<close> is a float, as the
  number input returns it, or an \<^verbatim>\<open>int\<close>. \<^verbatim>\<open>float(amount)\<close> is the float itself; an
  integer up to \<open>2 ^ 53\<close> in size is that number; from \<open>2 ^ 1024\<close> on the conversion
  raises \<^verbatim>\<open>OverflowError\<close>; between the two it rounds, which is not described.
\<close>

datatype number = FloatNum rat | IntNum int

fun py_float :: "number \<Rightarrow> rat outcome" where
  "py_float (FloatNum r) = Returns r"
| "py_float (IntNum i) =
     (if \<bar>i\<bar> \<le> 2 ^ 53 then Returns (of_int i)
      else if 2 ^ 1024 \<le> \<bar>i\<bar> then Raises
      else Undescribed)"

text \<open>
  \<^verbatim>\<open>add_expense\<close>, \<^verbatim>\<open>update_expense\<close>, \<^verbatim>\<open>delete_expense\<close>: the flag returned
  and the sheet afterwards; an exception is caught and gives \<open>False\<close> and the sheet
  as it was.
\<close>

definition expense_cells :: "date \<Rightarrow> rat \<Rightarrow> string \<Rightarrow> string \<Rightarrow> cell list" where
  "expense_cells d amt c x = [Txt (strftime d), Num amt, Txt c, Txt x]"

definition add_expense ::
  "worksheet \<Rightarrow> date \<Rightarrow> number \<Rightarrow> string \<Rightarrow> string \<Rightarrow> (bool \<times> worksheet) option" where
  "add_expense ws d amt c x =
     (case py_float amt of
        Undescribed \<Rightarrow> None
      | Raises \<Rightarrow> Some (False, ws)
      | Returns a \<Rightarrow>
          (case append_row ws (expense_cells d a c x) of
             Undescribed \<Rightarrow> None
           | Raises \<Rightarrow> Some (False, ws)
           | Returns ws' \<Rightarrow> Some (True, ws')))"

definition update_expense ::
  "worksheet \<Rightarrow> row_number \<Rightarrow> date \<Rightarrow> number \<Rightarrow> string \<Rightarrow> string \<Rightarrow>
     (bool \<times> worksheet) option" where
  "update_expense ws n d amt c x =
     (case py_float amt of
        Undescribed \<Rightarrow> None
      | Raises \<Rightarrow> Some (False, ws)
      | Returns a \<Rightarrow>
          (case update ws (number_of n) (expense_cells d a c x) of
             Undescribed \<Rightarrow> None
           | Raises \<Rightarrow> Some (False, ws)
           | Returns ws' \<Rightarrow> Some (True, ws')))"

definition delete_expense :: "worksheet \<Rightarrow> row_number \<Rightarrow> (bool \<times> worksheet) option" where
  "delete_expense ws n =
     (case delete_rows ws n of
        Undescribed \<Rightarrow> None
      | Raises \<Rightarrow> Some (False, ws)
      | Returns ws' \<Rightarrow> Some (True, ws'))"

text \<open>
  \<^verbatim>\<open>selected_row['row_num']\<close>, the row number the script passes to
  \<^verbatim>\<open>update_expense\<close> and \<^verbatim>\<open>delete_expense\<close>: an entry of the \<^verbatim>\<open>RowNum\<close> column of
  the frame, which is a \<^verbatim>\<open>numpy.int64\<close>.
\<close>

definition selected_row_num :: "expense \<Rightarrow> row_number" where
  "selected_row_num selected_row = NumpyInt64 (row_num selected_row)"

subsection \<open>The category registry\<close>

definition categories_header :: "cell list" where
  "categories_header = [Txt ''Category'']"

definition load_categories :: "worksheet \<Rightarrow> cell list option" where
  "load_categories ws =
     (case get_all_records ws of
        Undescribed \<Rightarrow> None
      | Raises \<Rightarrow> Some []
      | Returns data \<Rightarrow>
          if data \<noteq> [] then
            (case column data ''Category'' of Some cs \<Rightarrow> Some cs | None \<Rightarrow> Some [])
          else Some [])"

definition add_category :: "worksheet \<Rightarrow> string \<Rightarrow> (bool \<times> worksheet) option" where
  "add_category ws c =
     (case append_row ws [Txt c] of
        Undescribed \<Rightarrow> None
      | Raises \<Rightarrow> Some (False, ws)
      | Returns ws' \<Rightarrow> Some (True, ws'))"

text \<open>
  The body of \<^verbatim>\<open>add_category_form\<close>: what the form reports and the sheet afterwards.
  \<open>categories\<close> is the list loaded at the start of the run; \<^verbatim>\<open>new_category in
  categories\<close> compares the text typed with the entries as they were read, and text
  never equals a number.
\<close>

datatype form_report = Category_already_exists | Added | Nothing

definition add_category_form ::
  "worksheet \<Rightarrow> cell list \<Rightarrow> bool \<Rightarrow> string \<Rightarrow> (form_report \<times> worksheet) option" where
  "add_category_form ws categories add_cat_btn new_category =
     (if add_cat_btn \<and> new_category \<noteq> [] then
        if Txt new_category \<in> set categories then Some (Category_already_exists, ws)
        else (case add_category ws new_category of
                None \<Rightarrow> None
              | Some (True, ws') \<Rightarrow> Some (Added, ws')
              | Some (False, ws') \<Rightarrow> Some (Nothing, ws'))
      else Some (Nothing, ws))"

subsection \<open>The main script: metrics and filter\<close>

datatype error = IndexError | ZeroDivisionError

text \<open>
  The summary metrics stand in the \<^verbatim>\<open>else\<close> branch of \<^verbatim>\<open>if len(df) == 0\<close>: for an
  empty frame the script shows a hint and no metric (\<open>None\<close>). The metrics are taken
  over the whole frame, before any filter. \<^verbatim>\<open>Series.mean()\<close> of an empty series is
  not a number (\<open>None\<close>).
\<close>

definition mean :: "rat list \<Rightarrow> rat option" where
  "mean xs = (if xs = [] then None else Some (sum_list xs / of_nat (length xs)))"

record metrics =
  total_expenses :: rat
  number_of_transactions :: nat
  average_transaction :: "rat option"
  highest_expense :: rat

definition summary_metrics :: "expense list \<Rightarrow> metrics option" where
  "summary_metrics df =
     (if length df = 0 then None
      else Some \<lparr>total_expenses = sum_list (map amount df),
                 number_of_transactions = length df,
                 average_transaction = mean (map amount df),
                 highest_expense = Max (set (map amount df))\<rparr>)"

text \<open>
  The filter. \<^verbatim>\<open>date_range\<close> is what the date input returns, a tuple of up to two
  dates; \<^verbatim>\<open>date_range[0]\<close> and \<^verbatim>\<open>date_range[1]\<close> raise when it is shorter.
  The minimum amount input starts at \<^verbatim>\<open>value=0.0\<close>.
\<close>

definition min_amount_default :: rat where
  "min_amount_default = 0"

definition filtered_df ::
  "expense list \<Rightarrow> date list \<Rightarrow> cell list \<Rightarrow> rat \<Rightarrow> error + expense list" where
  "filtered_df df date_range selected_categories min_amount =
     (case date_range of
        d0 # d1 # _ \<Rightarrow>
          Inr (filter (\<lambda>e. date_le d0 (date e) \<and> date_le (date e) d1 \<and>
                           category e \<in> set selected_categories \<and>
                           min_amount \<le> amount e) df)
      | _ \<Rightarrow> Inl IndexError)"

text \<open>
  \<^verbatim>\<open>filtered_df['amount'].sum() / max(len(filtered_df['date'].unique()), 1)\<close>, the
  Daily Average. A division by zero raises.
\<close>

definition divide_by :: "rat \<Rightarrow> nat \<Rightarrow> error + rat" where
  "divide_by a n = (if n = 0 then Inl ZeroDivisionError else Inr (a / of_nat n))"

definition daily_average :: "expense list \<Rightarrow> error + rat" where
  "daily_average filtered =
     divide_by (sum_list (map amount filtered)) (max (length (remdups (map date filtered))) 1)"

subsection \<open>A small ledger and a small registry\<close>

definition example_sheet :: worksheet where
  "example_sheet =
     [expenses_header,
      [Txt ''2024-01-01'', Num 10, Txt ''Food'', Txt ''lunch''],
      [Txt ''2024-01-02'', Num 20, Txt ''Transport'', Txt ''bus''],
      [Txt ''2024-01-03'', Num 5, Txt ''Food'', Txt ''snack'']]"

definition example_frame :: "expense list" where
  "example_frame =
     [\<lparr>date = \<lparr>year = 2024, month = 1, day = 1\<rparr>, amount = 10, category = Txt ''Food'',
       description = Txt ''lunch'', row_num = 2\<rparr>,
      \<lparr>date = \<lparr>year = 2024, month = 1, day = 2\<rparr>, amount = 20, category = Txt ''Transport'',
       description = Txt ''bus'', row_num = 3\<rparr>,
      \<lparr>date = \<lparr>year = 2024, month = 1, day = 3\<rparr>, amount = 5, category = Txt ''Food'',
       description = Txt ''snack'', row_num = 4\<rparr>]"

definition numeric_registry :: worksheet where
  "numeric_registry = [categories_header, [Txt ''Food''], [Txt ''123'']]"

subsection \<open>Dates as text\<close>

lemma digit_code_bound: "(48 + n mod 10) mod 256 = 48 + (n::nat) mod 10"
proof -
  have "n mod 10 < 10" by simp
  then have "48 + n mod 10 < 256" by linarith
  then show ?thesis by simp
qed

lemma digit_val_digit: "digit_val (digit n) = Some (n mod 10)"
  by (simp add: digit_val_def digit_def Let_def digit_code_bound)

lemma decimal4:
  fixes y :: nat
  assumes "y < 10000"
  shows "1000 * (y div 1000 mod 10) + 100 * (y div 100 mod 10)
            + 10 * (y div 10 mod 10) + y mod 10 = y"
proof -
  have a: "y = 10 * (y div 10) + y mod 10" by simp
  have b: "y div 10 = 10 * (y div 100) + y div 10 mod 10"
    using div_mult2_eq [of y 10 10] by simp
  have c: "y div 100 = 10 * (y div 1000) + y div 100 mod 10"
    using div_mult2_eq [of y 100 10] by simp
  have d: "y div 1000 mod 10 = y div 1000"
    using assms by simp
  show ?thesis using a b c d by linarith
qed

lemma decimal2:
  fixes m :: nat
  assumes "m < 100"
  shows "10 * (m div 10 mod 10) + m mod 10 = m"
proof -
  have "m div 10 mod 10 = m div 10" using assms by simp
  then show ?thesis by simp
qed

lemma decimal4_small:
  fixes y :: nat
  assumes "y < 10000"
  shows "1000 * (y div 1000) + 100 * (y div 100 mod 10)
            + 10 * (y div 10 mod 10) + y mod 10 = y"
proof -
  have "y div 1000 mod 10 = y div 1000"
    using assms by simp
  with decimal4 [OF assms] show ?thesis by simp
qed

lemma decimal_four_digits:
  assumes "1000 \<le> y" and "y < 10000"
  shows "decimal y = [digit (y div 1000), digit (y div 100), digit (y div 10), digit y]"
proof -
  have y1: "100 \<le> y div 10"
    using div_le_mono [OF assms(1), of 10] by simp
  have y2: "10 \<le> y div 100"
    using div_le_mono [OF assms(1), of 100] by simp
  have y3: "y div 1000 < 10"
    using assms(2) by simp
  have e1: "y div 10 div 10 = y div 100"
    by (simp add: div_mult2_eq [symmetric])
  have e2: "y div 100 div 10 = y div 1000"
    by (simp add: div_mult2_eq [symmetric])
  have a: "decimal y = decimal (y div 10) @ [digit y]"
    using assms(1) by (subst decimal.simps) simp
  have n1: "\<not> y div 10 < 10" using y1 by simp
  have n2: "\<not> y div 100 < 10" using y2 by simp
  have b: "decimal (y div 10) = decimal (y div 100) @ [digit (y div 10)]"
    by (subst decimal.simps) (simp only: n1 if_False e1)
  have c: "decimal (y div 100) = decimal (y div 1000) @ [digit (y div 100)]"
    by (subst decimal.simps) (simp only: n2 if_False e2)
  have d: "decimal (y div 1000) = [digit (y div 1000)]"
    using y3 by (subst decimal.simps) simp
  show ?thesis by (simp only: a b c d append.simps)
qed

text \<open>
  From the year 1000 on the text has the form \<^verbatim>\<open>YYYY-MM-DD\<close>, and for the years
  1678 to 2261 the conversion reads the date back.
\<close>

lemma to_datetime_strftime:
  assumes "valid_date d" and "1678 \<le> year d" and "year d \<le> 2261"
  shows "to_datetime (strftime d) = Some d"
proof (cases d)
  case (fields y m dd)
  from assms fields have v: "valid_date \<lparr>year = y, month = m, day = dd\<rparr>"
    and lo: "1678 \<le> y" and hi: "y \<le> 2261"
    by simp_all
  from v have b: "m < 100" "dd < 100"
    by (auto simp: valid_date_def days_in_month_def split: if_splits)
  from lo hi have y4: "1000 \<le> y" "y < 10000" by simp_all
  show ?thesis
    using v lo hi
    by (simp add: fields to_datetime_def strftime_def decimal_four_digits [OF y4]
        digit_val_digit Let_def decimal4_small [OF y4(2)] decimal2 [OF b(1)] decimal2 [OF b(2)])
qed

subsection \<open>The ledger on the small example\<close>

lemma load_example_sheet: "load_expenses example_sheet = Some example_frame"
  by code_simp

text \<open>
  Claim C1 says that adding an expense and loading shows one more record whose fields
  are the values that were passed, at the next row number. The program breaks this for
  a description (or a category) that reads as a number: added as the text \<^verbatim>\<open>123\<close>, it
  is loaded as the number 123, because the read converts every cell that looks like a
  number. With a description that is plain text the new record is as the claim says.
\<close>

theorem add_then_load_numeric_description:
  "add_expense example_sheet \<lparr>year = 2024, month = 1, day = 4\<rparr> (FloatNum 20)
       ''Transport'' ''123'' =
     Some (True, example_sheet @ [[Txt ''2024-01-04'', Num 20, Txt ''Transport'', Txt ''123'']]) \<and>
   load_expenses
       (example_sheet @ [[Txt ''2024-01-04'', Num 20, Txt ''Transport'', Txt ''123'']]) =
     Some (example_frame @
       [\<lparr>date = \<lparr>year = 2024, month = 1, day = 4\<rparr>, amount = 20,
         category = Txt ''Transport'', description = Num 123, row_num = 5\<rparr>]) \<and>
   add_expense example_sheet \<lparr>year = 2024, month = 1, day = 4\<rparr> (FloatNum 20)
       ''Transport'' ''taxi'' =
     Some (True, example_sheet @ [[Txt ''2024-01-04'', Num 20, Txt ''Transport'', Txt ''taxi'']]) \<and>
   load_expenses
       (example_sheet @ [[Txt ''2024-01-04'', Num 20, Txt ''Transport'', Txt ''taxi'']]) =
     Some (example_frame @
       [\<lparr>date = \<lparr>year = 2024, month = 1, day = 4\<rparr>, amount = 20,
         category = Txt ''Transport'', description = Txt ''taxi'', row_num = 5\<rparr>])"
proof -
  have a: "add_expense example_sheet \<lparr>year = 2024, month = 1, day = 4\<rparr> (FloatNum 20)
       ''Transport'' ''123'' =
     Some (True, example_sheet @ [[Txt ''2024-01-04'', Num 20, Txt ''Transport'', Txt ''123'']])"
    by code_simp
  have b: "load_expenses
       (example_sheet @ [[Txt ''2024-01-04'', Num 20, Txt ''Transport'', Txt ''123'']]) =
     Some (example_frame @
       [\<lparr>date = \<lparr>year = 2024, month = 1, day = 4\<rparr>, amount = 20,
         category = Txt ''Transport'', description = Num 123, row_num = 5\<rparr>])"
    by code_simp
  have c: "add_expense example_sheet \<lparr>year = 2024, month = 1, day = 4\<rparr> (FloatNum 20)
       ''Transport'' ''taxi'' =
     Some (True, example_sheet @ [[Txt ''2024-01-04'', Num 20, Txt ''Transport'', Txt ''taxi'']])"
    by code_simp
  have d: "load_expenses
       (example_sheet @ [[Txt ''2024-01-04'', Num 20, Txt ''Transport'', Txt ''taxi'']]) =
     Some (example_frame @
       [\<lparr>date = \<lparr>year = 2024, month = 1, day = 4\<rparr>, amount = 20,
         category = Txt ''Transport'', description = Txt ''taxi'', row_num = 5\<rparr>])"
    by code_simp
  from a b c d show ?thesis by blast
qed

text \<open>
  Claim C4 says that deleting at a row number of the frame and loading shows one record
  fewer, the later records moved up by one. The program breaks this on the only path
  that deletes: the script passes the row number as it stands in the frame, a
  \<^verbatim>\<open>numpy.int64\<close>, the client's call raises, and \<^verbatim>\<open>delete_expense\<close> returns
  \<open>False\<close> with the sheet as it was, for every sheet and every row. Called with the
  same number as an \<^verbatim>\<open>int\<close>, it does what the claim says.
\<close>

theorem delete_selected_row_fails:
  "delete_expense ws (selected_row_num selected_row) = Some (False, ws) \<and>
   delete_expense example_sheet (selected_row_num (example_frame ! 1)) =
     Some (False, example_sheet) \<and>
   load_expenses example_sheet = Some example_frame \<and>
   delete_expense example_sheet (PyInt 3) =
     Some (True,
       [expenses_header,
        [Txt ''2024-01-01'', Num 10, Txt ''Food'', Txt ''lunch''],
        [Txt ''2024-01-03'', Num 5, Txt ''Food'', Txt ''snack'']]) \<and>
   load_expenses
       [expenses_header,
        [Txt ''2024-01-01'', Num 10, Txt ''Food'', Txt ''lunch''],
        [Txt ''2024-01-03'', Num 5, Txt ''Food'', Txt ''snack'']] =
     Some [\<lparr>date = \<lparr>year = 2024, month = 1, day = 1\<rparr>, amount = 10, category = Txt ''Food'',
             description = Txt ''lunch'', row_num = 2\<rparr>,
           \<lparr>date = \<lparr>year = 2024, month = 1, day = 3\<rparr>, amount = 5, category = Txt ''Food'',
             description = Txt ''snack'', row_num = 3\<rparr>]"
proof -
  have a: "\<And>ws r. delete_expense ws (selected_row_num r) = Some (False, ws)"
    by (simp add: delete_expense_def selected_row_num_def)
  have b: "delete_expense example_sheet (PyInt 3) =
     Some (True,
       [expenses_header,
        [Txt ''2024-01-01'', Num 10, Txt ''Food'', Txt ''lunch''],
        [Txt ''2024-01-03'', Num 5, Txt ''Food'', Txt ''snack'']])"
    by code_simp
  have c: "load_expenses
       [expenses_header,
        [Txt ''2024-01-01'', Num 10, Txt ''Food'', Txt ''lunch''],
        [Txt ''2024-01-03'', Num 5, Txt ''Food'', Txt ''snack'']] =
     Some [\<lparr>date = \<lparr>year = 2024, month = 1, day = 1\<rparr>, amount = 10, category = Txt ''Food'',
             description = Txt ''lunch'', row_num = 2\<rparr>,
           \<lparr>date = \<lparr>year = 2024, month = 1, day = 3\<rparr>, amount = 5, category = Txt ''Food'',
             description = Txt ''snack'', row_num = 3\<rparr>]"
    by code_simp
  from a [of ws selected_row] a [of example_sheet "example_frame ! 1"] load_example_sheet b c
  show ?thesis by blast
qed

text \<open>
  Claim C5 says that updating at a row number of the frame and loading shows the new
  field values at that row and the other rows unchanged. The program breaks this for a
  new description (or category) that reads as a number: written as the text \<^verbatim>\<open>123\<close>,
  it is loaded as the number 123, by the same conversion on read as for an added
  expense. The other rows are unchanged.
\<close>

theorem update_then_load_numeric_description:
  "update_expense example_sheet (selected_row_num (example_frame ! 1))
       \<lparr>year = 2024, month = 2, day = 29\<rparr> (FloatNum 25) ''Travel'' ''123'' =
     Some (True,
       [expenses_header,
        [Txt ''2024-01-01'', Num 10, Txt ''Food'', Txt ''lunch''],
        [Txt ''2024-02-29'', Num 25, Txt ''Travel'', Txt ''123''],
        [Txt ''2024-01-03'', Num 5, Txt ''Food'', Txt ''snack'']]) \<and>
   load_expenses
       [expenses_header,
        [Txt ''2024-01-01'', Num 10, Txt ''Food'', Txt ''lunch''],
        [Txt ''2024-02-29'', Num 25, Txt ''Travel'', Txt ''123''],
        [Txt ''2024-01-03'', Num 5, Txt ''Food'', Txt ''snack'']] =
     Some [\<lparr>date = \<lparr>year = 2024, month = 1, day = 1\<rparr>, amount = 10, category = Txt ''Food'',
             description = Txt ''lunch'', row_num = 2\<rparr>,
           \<lparr>date = \<lparr>year = 2024, month = 2, day = 29\<rparr>, amount = 25, category = Txt ''Travel'',
             description = Num 123, row_num = 3\<rparr>,
           \<lparr>date = \<lparr>year = 2024, month = 1, day = 3\<rparr>, amount = 5, category = Txt ''Food'',
             description = Txt ''snack'', row_num = 4\<rparr>]"
proof -
  have a: "update_expense example_sheet (selected_row_num (example_frame ! 1))
       \<lparr>year = 2024, month = 2, day = 29\<rparr> (FloatNum 25) ''Travel'' ''123'' =
     Some (True,
       [expenses_header,
        [Txt ''2024-01-01'', Num 10, Txt ''Food'', Txt ''lunch''],
        [Txt ''2024-02-29'', Num 25, Txt ''Travel'', Txt ''123''],
        [Txt ''2024-01-03'', Num 5, Txt ''Food'', Txt ''snack'']])"
    by code_simp
  have b: "load_expenses
       [expenses_header,
        [Txt ''2024-01-01'', Num 10, Txt ''Food'', Txt ''lunch''],
        [Txt ''2024-02-29'', Num 25, Txt ''Travel'', Txt ''123''],
        [Txt ''2024-01-03'', Num 5, Txt ''Food'', Txt ''snack'']] =
     Some [\<lparr>date = \<lparr>year = 2024, month = 1, day = 1\<rparr>, amount = 10, category = Txt ''Food'',
             description = Txt ''lunch'', row_num = 2\<rparr>,
           \<lparr>date = \<lparr>year = 2024, month = 2, day = 29\<rparr>, amount = 25, category = Txt ''Travel'',
             description = Num 123, row_num = 3\<rparr>,
           \<lparr>date = \<lparr>year = 2024, month = 1, day = 3\<rparr>, amount = 5, category = Txt ''Food'',
             description = Txt ''snack'', row_num = 4\<rparr>]"
    by code_simp
  from a b show ?thesis by blast
qed


subsection \<open>The category form on a small registry\<close>

text \<open>
  Claim C6 says that adding a label that the registry already holds fails as a
  duplicate and leaves the registry as long as it was. The program breaks this for a
  label that reads as a number: the registry holding the label \<^verbatim>\<open>123\<close> is loaded with
  the number 123 in its place, the text typed is not found among the entries, and the
  label is appended a second time. For a label that is plain text the duplicate is
  reported and the sheet stays as it was.
\<close>

theorem duplicate_numeric_label_added:
  "load_categories numeric_registry = Some [Txt ''Food'', Num 123] \<and>
   add_category_form numeric_registry [Txt ''Food'', Num 123] True ''123'' =
     Some (Added, numeric_registry @ [[Txt ''123'']]) \<and>
   load_categories (numeric_registry @ [[Txt ''123'']]) = Some [Txt ''Food'', Num 123, Num 123] \<and>
   add_category_form numeric_registry [Txt ''Food'', Num 123] True ''Food'' =
     Some (Category_already_exists, numeric_registry)"
proof -
  have a: "load_categories numeric_registry = Some [Txt ''Food'', Num 123]"
    by code_simp
  have b: "add_category_form numeric_registry [Txt ''Food'', Num 123] True ''123'' =
     Some (Added, numeric_registry @ [[Txt ''123'']])"
    by code_simp
  have c: "load_categories (numeric_registry @ [[Txt ''123'']]) =
     Some [Txt ''Food'', Num 123, Num 123]"
    by code_simp
  have d: "add_category_form numeric_registry [Txt ''Food'', Num 123] True ''Food'' =
     Some (Category_already_exists, numeric_registry)"
    by code_simp
  from a b c d show ?thesis by blast
qed

subsection \<open>Metrics and filter\<close>

text \<open>
  Claim C2, as the program has it. The Average Transaction metric is computed over the
  whole loaded frame, and only when the frame is not empty; there it is the total
  amount divided by the number of transactions, a division by a number that is not
  zero. For the empty frame the script computes no metric at all, and the mean of an
  empty series would not be a number, so no average of 0 is ever produced.
\<close>

theorem average_transaction_guarded:
  "summary_metrics [] = None \<and> mean [] = None \<and>
   (df \<noteq> [] \<longrightarrow>
      map_option average_transaction (summary_metrics df) =
        Some (Some (sum_list (map amount df) / of_nat (length df))) \<and>
      map_option total_expenses (summary_metrics df) = Some (sum_list (map amount df)) \<and>
      map_option number_of_transactions (summary_metrics df) = Some (length df) \<and>
      length df \<noteq> 0)"
  by (simp add: summary_metrics_def mean_def)

text \<open>
  Claim C2 as stated fails at the empty frame: the average is not 0 there, the script
  shows no average.
\<close>

theorem average_empty_counterexample:
  "map_option average_transaction (summary_metrics []) \<noteq> Some (Some 0)"
  by (simp add: summary_metrics_def)

text \<open>
  Claim C8. With a start and an end date, a list of selected categories and a minimum
  amount, the filtered frame holds exactly the rows of the frame, in their order, whose
  date is on or after the start and on or before the end, whose category is among the
  selected ones and whose amount is at least the minimum. With the minimum the input
  starts at, 0, and no negative amount in the frame, the amount excludes no row.
\<close>

theorem filtered_df_exact:
  "filtered_df df [d0, d1] selected min_amount =
     Inr (filter (\<lambda>e. date_key d0 \<le> date_key (date e) \<and> date_key (date e) \<le> date_key d1 \<and>
                      category e \<in> set selected \<and> min_amount \<le> amount e) df) \<and>
   (\<exists>fd. filtered_df df [d0, d1] selected min_amount = Inr fd \<and>
      set fd = {e \<in> set df. date_key d0 \<le> date_key (date e) \<and> date_key (date e) \<le> date_key d1 \<and>
                      category e \<in> set selected \<and> min_amount \<le> amount e}) \<and>
   ((\<forall>e \<in> set df. 0 \<le> amount e) \<longrightarrow>
      filtered_df df [d0, d1] selected min_amount_default =
        Inr (filter (\<lambda>e. date_key d0 \<le> date_key (date e) \<and> date_key (date e) \<le> date_key d1 \<and>
                         category e \<in> set selected) df))"
proof -
  have eq: "\<And>m. filtered_df df [d0, d1] selected m =
     Inr (filter (\<lambda>e. date_key d0 \<le> date_key (date e) \<and> date_key (date e) \<le> date_key d1 \<and>
                      category e \<in> set selected \<and> m \<le> amount e) df)"
    by (simp add: filtered_df_def date_le_def)
  have ex: "\<exists>fd. filtered_df df [d0, d1] selected min_amount = Inr fd \<and>
      set fd = {e \<in> set df. date_key d0 \<le> date_key (date e) \<and> date_key (date e) \<le> date_key d1 \<and>
                      category e \<in> set selected \<and> min_amount \<le> amount e}"
    by (simp only: eq sum.inject set_filter simp_thms ex_simps)
  have dflt: "(\<forall>e \<in> set df. 0 \<le> amount e) \<longrightarrow>
      filtered_df df [d0, d1] selected min_amount_default =
        Inr (filter (\<lambda>e. date_key d0 \<le> date_key (date e) \<and> date_key (date e) \<le> date_key d1 \<and>
                         category e \<in> set selected) df)"
  proof
    assume "\<forall>e \<in> set df. 0 \<le> amount e"
    then have "filter (\<lambda>e. date_key d0 \<le> date_key (date e) \<and> date_key (date e) \<le> date_key d1 \<and>
                      category e \<in> set selected \<and> min_amount_default \<le> amount e) df
        = filter (\<lambda>e. date_key d0 \<le> date_key (date e) \<and> date_key (date e) \<le> date_key d1 \<and>
                      category e \<in> set selected) df"
      by (intro filter_cong [OF refl]) (simp add: min_amount_default_def)
    then show "filtered_df df [d0, d1] selected min_amount_default =
        Inr (filter (\<lambda>e. date_key d0 \<le> date_key (date e) \<and> date_key (date e) \<le> date_key d1 \<and>
                         category e \<in> set selected) df)"
      by (simp only: eq)
  qed
  from eq [of min_amount] ex dflt show ?thesis by blast
qed

text \<open>
  Claim C9. The Daily Average is the total amount divided by the greater of the number
  of distinct dates and 1. That divisor is never zero, so the division never raises,
  also for a frame without rows, where the result is 0; for a frame with rows the
  divisor is the number of distinct dates.
\<close>

theorem daily_average_defined:
  "daily_average fd = Inr (sum_list (map amount fd) / of_nat (max (card (date ` set fd)) 1)) \<and>
   0 < max (card (date ` set fd)) 1 \<and>
   (fd \<noteq> [] \<longrightarrow> max (card (date ` set fd)) 1 = card (date ` set fd)) \<and>
   daily_average [] = Inr 0"
proof -
  have n: "length (remdups (map date fd)) = card (date ` set fd)"
    by (simp add: length_remdups_card_conv)
  have ne: "fd \<noteq> [] \<Longrightarrow> 0 < card (date ` set fd)"
    by (simp add: card_gt_0_iff)
  show ?thesis
    using ne by (auto simp: daily_average_def divide_by_def n)
qed

subsection \<open>Running the script on the small ledger\<close>

theorem average_transaction_guarded_witness:
  "example_frame \<noteq> [] \<and>
   map_option average_transaction (summary_metrics example_frame) = Some (Some (35 / 3)) \<and>
   map_option total_expenses (summary_metrics example_frame) = Some 35 \<and>
   map_option number_of_transactions (summary_metrics example_frame) = Some 3"
proof -
  have ne: "example_frame \<noteq> []" by (simp add: example_frame_def)
  have s: "sum_list (map amount example_frame) = 35" by (simp add: example_frame_def)
  have n: "length example_frame = 3" by (simp add: example_frame_def)
  from average_transaction_guarded [of example_frame] ne show ?thesis
    by (simp add: s n)
qed

theorem daily_average_defined_witness:
  "example_frame \<noteq> [] \<and> card (date ` set example_frame) = 3 \<and>
   daily_average example_frame = Inr (35 / 3)"
proof -
  have ne: "example_frame \<noteq> []" by (simp add: example_frame_def)
  have c: "card (date ` set example_frame) = 3" by (simp add: example_frame_def)
  have s: "sum_list (map amount example_frame) = 35" by (simp add: example_frame_def)
  from daily_average_defined [of example_frame] ne c show ?thesis
    by (simp add: s)
qed

theorem filtered_df_exact_witness:
  "list_all (\<lambda>e. 0 \<le> amount e) example_frame \<and>
   filtered_df example_frame
     [\<lparr>year = 2024, month = 1, day = 1\<rparr>, \<lparr>year = 2024, month = 1, day = 3\<rparr>] [Txt ''Food'']
     min_amount_default =
     Inr [\<lparr>date = \<lparr>year = 2024, month = 1, day = 1\<rparr>, amount = 10, category = Txt ''Food'',
            description = Txt ''lunch'', row_num = 2\<rparr>,
          \<lparr>date = \<lparr>year = 2024, month = 1, day = 3\<rparr>, amount = 5, category = Txt ''Food'',
            description = Txt ''snack'', row_num = 4\<rparr>] \<and>
   filtered_df example_frame
     [\<lparr>year = 2024, month = 1, day = 2\<rparr>, \<lparr>year = 2024, month = 1, day = 3\<rparr>]
     [Txt ''Food'', Txt ''Transport''] 10 =
     Inr [\<lparr>date = \<lparr>year = 2024, month = 1, day = 2\<rparr>, amount = 20, category = Txt ''Transport'',
            description = Txt ''bus'', row_num = 3\<rparr>]"
proof -
  have h: "\<forall>e \<in> set example_frame. 0 \<le> amount e"
    by (simp add: example_frame_def)
  note t = filtered_df_exact [of example_frame "\<lparr>year = 2024, month = 1, day = 1\<rparr>"
      "\<lparr>year = 2024, month = 1, day = 3\<rparr>" "[Txt ''Food'']" 0]
  from t h have a: "filtered_df example_frame
     [\<lparr>year = 2024, month = 1, day = 1\<rparr>, \<lparr>year = 2024, month = 1, day = 3\<rparr>] [Txt ''Food'']
     min_amount_default =
       Inr (filter (\<lambda>e. date_key \<lparr>year = 2024, month = 1, day = 1\<rparr> \<le> date_key (date e) \<and>
                        date_key (date e) \<le> date_key \<lparr>year = 2024, month = 1, day = 3\<rparr> \<and>
                        category e \<in> set [Txt ''Food'']) example_frame)"
    by blast
  note b = filtered_df_exact [of example_frame "\<lparr>year = 2024, month = 1, day = 2\<rparr>"
      "\<lparr>year = 2024, month = 1, day = 3\<rparr>" "[Txt ''Food'', Txt ''Transport'']" 10, THEN conjunct1]
  show ?thesis
    unfolding a b by (simp add: example_frame_def date_key_def)
qed

end
